theory Spec2Isabelle
  imports Complex_Main "HOL-Library.AList"
begin

section \<open>The ERA5 notebook: acquisition\<close>

text \<open>
  The notebook \<open>ecodatascience_using_xarray_dask.ipynb\<close> is a sequence of cells run top to
  bottom. Each cell is embedded as a function on the state it reads and writes. Calls into
  the object-storage client, the file system and the array library are calls into code that
  is not part of the repository; each such operation is given a small model of its own,
  marked as such, and the cells are written on top of these models as the source writes
  them.
\<close>

subsection \<open>Errors\<close>

text \<open>
  No cell catches an exception: whatever a library raises halts the notebook at that cell.
  Every function that can raise returns a sum, \<open>Inl\<close> carrying the exception.
\<close>

datatype py_error =
    KeyError string
  | ValueError string
  | ClientError string

fun bind_result :: "py_error + 'a \<Rightarrow> ('a \<Rightarrow> py_error + 'b) \<Rightarrow> py_error + 'b" where
  "bind_result (Inl e) f = Inl e"
| "bind_result (Inr x) f = f x"

subsection \<open>Strings: \<open>str.format\<close> and \<open>date.strftime\<close>\<close>

text \<open>
  \<open>format_from kw field s\<close> scans the pattern \<open>s\<close> left to right. \<open>field = None\<close> while in
  literal text; \<open>field = Some name\<close> while inside a replacement field whose name read so far
  is \<open>name\<close>. A doubled brace is a literal brace, a closing brace ends the field, whose value
  is looked up among the keyword arguments \<open>kw\<close>; the substituted value is not scanned again.
  The patterns of the notebook use plain keyword fields only (no conversion, no format
  specification, no positional field), and so does the model.
\<close>

fun format_from :: "(string \<rightharpoonup> string) \<Rightarrow> string option \<Rightarrow> string \<Rightarrow> py_error + string" where
  "format_from kw None [] = Inr []"
| "format_from kw (Some name) [] = Inl (ValueError ''expected } before end of string'')"
| "format_from kw None (c # cs) =
     (if c = CHR ''{'' then
        (case cs of
           d # ds \<Rightarrow>
             if d = CHR ''{'' then bind_result (format_from kw None ds) (\<lambda>r. Inr (c # r))
             else format_from kw (Some []) cs
         | [] \<Rightarrow> Inl (ValueError ''Single { encountered in format string''))
      else if c = CHR ''}'' then
        (case cs of
           d # ds \<Rightarrow>
             if d = CHR ''}'' then bind_result (format_from kw None ds) (\<lambda>r. Inr (c # r))
             else Inl (ValueError ''Single } encountered in format string'')
         | [] \<Rightarrow> Inl (ValueError ''Single } encountered in format string''))
      else bind_result (format_from kw None cs) (\<lambda>r. Inr (c # r)))"
| "format_from kw (Some name) (c # cs) =
     (if c = CHR ''}'' then
        (case kw name of
           None \<Rightarrow> Inl (KeyError name)
         | Some v \<Rightarrow> bind_result (format_from kw None cs) (\<lambda>r. Inr (v @ r)))
      else format_from kw (Some (name @ [c])) cs)"

definition format :: "string \<Rightarrow> (string \<rightharpoonup> string) \<Rightarrow> py_error + string" where
  "format ptrn kw = format_from kw None ptrn"

text \<open>
  A calendar date, as \<open>datetime.date(year, month, day)\<close> holds it. \<open>strftime\<close> renders the
  directives the notebook uses: \<open>%Y\<close> (the year in decimal), \<open>%m\<close> and \<open>%d\<close> (two digits,
  zero padded), \<open>%%\<close> (a percent sign); every other character is copied.
\<close>

record datetime_date =
  year :: nat
  month :: nat
  day :: nat

definition digit_char :: "nat \<Rightarrow> char" where
  "digit_char n = ''0123456789'' ! (n mod 10)"

function decimal :: "nat \<Rightarrow> string" where
  "decimal n = (if n < 10 then [digit_char n] else decimal (n div 10) @ [digit_char n])"
  by pat_completeness auto
termination
  by (relation "measure id") auto

declare decimal.simps [simp del]

definition two_digits :: "nat \<Rightarrow> string" where
  "two_digits n = (if n < 10 then CHR ''0'' # decimal n else decimal n)"

fun strftime :: "datetime_date \<Rightarrow> string \<Rightarrow> string" where
  "strftime dt [] = []"
| "strftime dt [c] = [c]"
| "strftime dt (c # d # cs) =
     (if c = CHR ''%'' then
        (if d = CHR ''Y'' then decimal (year dt) @ strftime dt cs
         else if d = CHR ''m'' then two_digits (month dt) @ strftime dt cs
         else if d = CHR ''d'' then two_digits (day dt) @ strftime dt cs
         else if d = CHR ''%'' then CHR ''%'' # strftime dt cs
         else c # strftime dt (d # cs))
      else c # strftime dt (d # cs))"

subsection \<open>The world: bucket, local files, standard output\<close>

text \<open>
  What the acquisition cells read and write outside the notebook: the objects of the remote
  store (by bucket and key), the files of the working directory (by name), the log of the
  transfers made so far (bucket, key, local name) and the lines printed.
\<close>

record world =
  s3 :: "string \<Rightarrow> string \<rightharpoonup> string"
  files :: "string \<rightharpoonup> string"
  transfers :: "(string \<times> string \<times> string) list"
  stdout :: "string list"

text \<open>
  Modelled from the spec: \<open>os.path.isfile\<close> of the standard library, not part of the
  repository; the presence check is purely "does a file with this name exist".
\<close>

definition isfile :: "world \<Rightarrow> string \<Rightarrow> bool" where
  "isfile w path = (files w path \<noteq> None)"

text \<open>
  Modelled from the spec: \<open>client.download_file\<close> of the object-storage client, not part
  of the repository: copy the remote object to the local path, replacing what is there; a
  transfer that fails raises, and the error is surfaced uncaught. A missing object is the
  failure modelled; it leaves the world as it was.
\<close>

definition download_file :: "string \<Rightarrow> string \<Rightarrow> string \<Rightarrow> world \<Rightarrow> py_error + world" where
  "download_file bucket key filename w =
     (case s3 w bucket key of
        None \<Rightarrow> Inl (ClientError key)
      | Some body \<Rightarrow>
          Inr (w\<lparr>files := (files w)(filename \<mapsto> body),
                 transfers := transfers w @ [(bucket, key, filename)]\<rparr>))"

definition print :: "string \<Rightarrow> world \<Rightarrow> world" where
  "print line w = w\<lparr>stdout := stdout w @ [line]\<rparr>"

subsection \<open>Cell 6 and cell 8: the bucket and the metadata file\<close>

definition era5_bucket :: string where
  "era5_bucket = ''era5-pds''"

definition date :: datetime_date where
  "date = \<lparr>year = 2017, month = 1, day = 1\<rparr>"

definition prefix :: "datetime_date \<Rightarrow> string" where
  "prefix dt = strftime dt ''%Y/%m/''"

definition metadata_file :: string where
  "metadata_file = ''main.nc''"

definition metadata_key :: "datetime_date \<Rightarrow> string" where
  "metadata_key dt = prefix dt @ metadata_file"

text \<open>The download of cell 8; opening the file and printing its description follow it.\<close>

definition download_metadata :: "datetime_date \<Rightarrow> world \<Rightarrow> py_error + world" where
  "download_metadata dt w = download_file era5_bucket (metadata_key dt) metadata_file w"

subsection \<open>Cell 10: the variables of interest\<close>

definition var2 :: string where
  "var2 = ''air_pressure_at_mean_sea_level''"

definition var1 :: string where
  "var1 = ''air_temperature_at_2_metres''"

definition var_list :: "string list" where
  "var_list = [var1, var2]"

definition s3_data_ptrn :: string where
  "s3_data_ptrn = ''{year}/{month}/data/{var}.nc''"

definition data_file_ptrn :: string where
  "data_file_ptrn = ''{year}{month}_{var}.nc''"

definition s3_data_key :: "string \<Rightarrow> string \<Rightarrow> string \<Rightarrow> py_error + string" where
  "s3_data_key yr mo var =
     format s3_data_ptrn [''year'' \<mapsto> yr, ''month'' \<mapsto> mo, ''var'' \<mapsto> var]"

definition data_file :: "string \<Rightarrow> string \<Rightarrow> string \<Rightarrow> py_error + string" where
  "data_file yr mo var =
     format data_file_ptrn [''year'' \<mapsto> yr, ''month'' \<mapsto> mo, ''var'' \<mapsto> var]"

text \<open>
  The guarded download at the end of the loop body, for a key and a local name already
  built: nothing happens when the file is there, else one line is printed and the object
  is downloaded.
\<close>

definition fetch :: "string \<Rightarrow> string \<Rightarrow> world \<Rightarrow> py_error + world" where
  "fetch key path w =
     (if \<not> isfile w path then
        download_file era5_bucket key path
          (print (''Downloading '' @ key @ '' from S3...'') w)
      else Inr w)"

text \<open>One iteration of the loop, and the loop over a list of variables.\<close>

definition fetch_var :: "datetime_date \<Rightarrow> string \<Rightarrow> world \<Rightarrow> py_error + world" where
  "fetch_var dt var w =
     (let yr = strftime dt ''%Y'';
          mo = strftime dt ''%m''
      in bind_result (s3_data_key yr mo var) (\<lambda>key.
         bind_result (data_file yr mo var) (\<lambda>path.
         fetch key path w)))"

fun fetch_vars :: "datetime_date \<Rightarrow> string list \<Rightarrow> world \<Rightarrow> py_error + world" where
  "fetch_vars dt [] w = Inr w"
| "fetch_vars dt (var # vars) w = bind_result (fetch_var dt var w) (fetch_vars dt vars)"

definition cell10 :: "datetime_date \<Rightarrow> world \<Rightarrow> py_error + world" where
  "cell10 dt w = fetch_vars dt var_list w"

section \<open>The combined dataset\<close>

text \<open>
  Field values are floating-point numbers whose format is that of the downloaded files,
  which the source does not fix. They are modelled as real numbers: rounding, infinities
  and not-a-number values are outside the model. Coordinates and the longitudes of the
  locations are real numbers as well.
\<close>

subsection \<open>Deferred arrays\<close>

text \<open>
  A field of the dataset has the dimensions \<open>(time0, lat, lon)\<close>; its values are a list
  of time layers, each a list of rows (one per latitude) of cells (one per longitude).
\<close>

type_synonym cube = "real list list list"

text \<open>Python's \<open>xs[s:e]\<close> for positions \<open>0 \<le> s\<close> and \<open>0 \<le> e\<close>.\<close>

definition py_slice :: "'a list \<Rightarrow> nat \<Rightarrow> nat \<Rightarrow> 'a list" where
  "py_slice xs s e = take (e - s) (drop s xs)"

definition map_cube :: "(real \<Rightarrow> real) \<Rightarrow> cube \<Rightarrow> cube" where
  "map_cube f c = map (map (map f)) c"

text \<open>
  Modelled from the spec: the deferred arrays of the array library, not part of the
  repository. An array operation builds a dependency graph rather than computing; an
  explicit materialize call (\<open>compute\<close>) triggers the computation; \<open>persist\<close> computes the
  graph and retains the result in memory, so that later reductions read it from there.
  The graph has a node for each operation the notebook applies: the values as stored in
  the files, values retained in memory, division by and subtraction of a scalar, and the
  positional selection of a range of latitudes and a range of longitudes.
\<close>

datatype dask_array =
    OnDisk cube
  | InMemory cube
  | TrueDiv dask_array real
  | Subtract dask_array real
  | Getitem nat nat nat nat dask_array

fun compute :: "dask_array \<Rightarrow> cube" where
  "compute (OnDisk c) = c"
| "compute (InMemory c) = c"
| "compute (TrueDiv g k) = map_cube (\<lambda>x. x / k) (compute g)"
| "compute (Subtract g k) = map_cube (\<lambda>x. x - k) (compute g)"
| "compute (Getitem a b c d g) =
     map (\<lambda>layer. map (\<lambda>row. py_slice row c d) (py_slice layer a b)) (compute g)"

definition persist_array :: "dask_array \<Rightarrow> dask_array" where
  "persist_array g = InMemory (compute g)"

text \<open>
  Modelled from the spec: the reduction along the time dimension, delegated to the array
  library: the mean of a field across \<open>time0\<close>, a two-dimensional array. Each cell is the
  sum over the time layers divided by their number; with no layer at all the model
  returns no rows.
\<close>

datatype dask_grid = Mean_time0 dask_array

definition add_grid :: "real list list \<Rightarrow> real list list \<Rightarrow> real list list" where
  "add_grid g h = map2 (map2 (+)) g h"

fun compute_grid :: "dask_grid \<Rightarrow> real list list" where
  "compute_grid (Mean_time0 g) =
     (case compute g of
        [] \<Rightarrow> []
      | layer # layers \<Rightarrow>
          map (map (\<lambda>total. total / real (length (layer # layers))))
            (foldl add_grid layer layers))"

text \<open>The time series of one grid cell: row \<open>i\<close>, column \<open>j\<close> of every time layer.\<close>

datatype dask_series = Point nat nat dask_array

fun compute_series :: "dask_series \<Rightarrow> real list" where
  "compute_series (Point i j g) = map (\<lambda>layer. layer ! i ! j) (compute g)"

subsection \<open>Labelled arrays and the dataset\<close>

record data_array =
  data :: dask_array
  attrs :: "(string \<times> string) list"

record dataset =
  time0 :: "int list"
  lat :: "real list"
  lon :: "real list"
  data_vars :: "(string \<times> data_array) list"

text \<open>\<open>ds[name]\<close> and \<open>ds.name\<close> raise for a name the dataset does not hold.\<close>

definition getitem :: "dataset \<Rightarrow> string \<Rightarrow> py_error + data_array" where
  "getitem ds name =
     (case map_of (data_vars ds) name of
        None \<Rightarrow> Inl (KeyError name)
      | Some a \<Rightarrow> Inr a)"

definition setitem :: "dataset \<Rightarrow> string \<Rightarrow> data_array \<Rightarrow> dataset" where
  "setitem ds name a = ds\<lparr>data_vars := AList.update name a (data_vars ds)\<rparr>"



definition cells :: "cube \<Rightarrow> real list" where
  "cells c = concat (concat c)"

subsection \<open>Cell 15: the spatial subset\<close>

text \<open>
  Modelled from the spec: the label-based range selection of the array library, not part
  of the repository: given inclusive bounds, produce the sub-array covering them, where
  the order of the bounds matters and must be that of the coordinate. The library turns the
  two labels into two positions of the coordinate index and takes the positions between
  them: the start label gives the left insertion point and the stop label the right one,
  found by binary search in an increasing index and, mirrored, in a decreasing one. In an
  index that is neither, a label has a position only where it occurs exactly once.
\<close>

datatype side = SideLeft | SideRight

definition is_monotonic_increasing :: "real list \<Rightarrow> bool" where
  "is_monotonic_increasing idx = sorted idx"

definition is_monotonic_decreasing :: "real list \<Rightarrow> bool" where
  "is_monotonic_decreasing idx = sorted (rev idx)"

fun searchsorted :: "real list \<Rightarrow> real \<Rightarrow> side \<Rightarrow> nat" where
  "searchsorted idx v SideLeft = length (takeWhile (\<lambda>x. x < v) idx)"
| "searchsorted idx v SideRight = length (takeWhile (\<lambda>x. x \<le> v) idx)"

fun other_side :: "side \<Rightarrow> side" where
  "other_side SideLeft = SideRight"
| "other_side SideRight = SideLeft"

definition get_slice_bound :: "real list \<Rightarrow> real \<Rightarrow> side \<Rightarrow> py_error + nat" where
  "get_slice_bound idx label sd =
     (if is_monotonic_increasing idx then Inr (searchsorted idx label sd)
      else if is_monotonic_decreasing idx then
        Inr (length idx - searchsorted (rev idx) label (other_side sd))
      else
        (case filter (\<lambda>i. idx ! i = label) [0..<length idx] of
           [i] \<Rightarrow> Inr (case sd of SideLeft \<Rightarrow> i | SideRight \<Rightarrow> Suc i)
         | _ \<Rightarrow> Inl (KeyError ''label'')))"

definition slice_indexer :: "real list \<Rightarrow> real \<Rightarrow> real \<Rightarrow> py_error + nat \<times> nat" where
  "slice_indexer idx start stop =
     bind_result (get_slice_bound idx start SideLeft) (\<lambda>s.
     bind_result (get_slice_bound idx stop SideRight) (\<lambda>e.
     Inr (s, e)))"

definition isel :: "dataset \<Rightarrow> nat \<Rightarrow> nat \<Rightarrow> nat \<Rightarrow> nat \<Rightarrow> dataset" where
  "isel ds a b c d =
     ds\<lparr>lat := py_slice (lat ds) a b,
        lon := py_slice (lon ds) c d,
        data_vars := map (\<lambda>(name, v). (name, v\<lparr>data := Getitem a b c d (data v)\<rparr>))
                       (data_vars ds)\<rparr>"

definition sel :: "dataset \<Rightarrow> real \<times> real \<Rightarrow> real \<times> real \<Rightarrow> py_error + dataset" where
  "sel ds lat_slice lon_slice =
     bind_result (slice_indexer (lat ds) (fst lat_slice) (snd lat_slice)) (\<lambda>(a, b).
     bind_result (slice_indexer (lon ds) (fst lon_slice) (snd lon_slice)) (\<lambda>(c, d).
     Inr (isel ds a b c d)))"


subsection \<open>Cell 17: the unit conversions\<close>

text \<open>
  Arithmetic with a scalar adds a node to the graph of the field and, as the array library
  does, drops the attributes; the unit label is written afterwards. The dataset is the one
  handle \<open>ds\<close> of the notebook, updated in place: the cell takes it and returns it updated.
\<close>

definition truediv :: "data_array \<Rightarrow> real \<Rightarrow> data_array" where
  "truediv a k = \<lparr>data = TrueDiv (data a) k, attrs = []\<rparr>"

definition subtract :: "data_array \<Rightarrow> real \<Rightarrow> data_array" where
  "subtract a k = \<lparr>data = Subtract (data a) k, attrs = []\<rparr>"

definition set_attr :: "dataset \<Rightarrow> string \<Rightarrow> string \<Rightarrow> string \<Rightarrow> py_error + dataset" where
  "set_attr ds name key val =
     bind_result (getitem ds name) (\<lambda>a.
     Inr (setitem ds name (a\<lparr>attrs := AList.update key val (attrs a)\<rparr>)))"

definition cell17 :: "dataset \<Rightarrow> py_error + dataset" where
  "cell17 ds =
     bind_result (getitem ds ''air_pressure_at_mean_sea_level'') (\<lambda>p.
     bind_result (set_attr (setitem ds ''air_pressure_at_mean_sea_level'' (truediv p 100.0))
                    ''air_pressure_at_mean_sea_level'' ''units'' ''hPa'') (\<lambda>ds1.
     bind_result (getitem ds1 ''air_temperature_at_2_metres'') (\<lambda>t.
     set_attr (setitem ds1 ''air_temperature_at_2_metres'' (subtract t 273.15))
       ''air_temperature_at_2_metres'' ''units'' ''C'')))"

subsection \<open>Cells 19 to 27: the mean over time, directly and from the persisted array\<close>

definition mean :: "data_array \<Rightarrow> dask_grid" where
  "mean a = Mean_time0 (data a)"

definition persist :: "data_array \<Rightarrow> data_array" where
  "persist a = a\<lparr>data := persist_array (data a)\<rparr>"

text \<open>Cells 19 and 21: the mean is planned on the dataset's field, then computed.\<close>

definition da_temp_mean :: "dataset \<Rightarrow> py_error + real list list" where
  "da_temp_mean ds =
     bind_result (getitem ds ''air_temperature_at_2_metres'') (\<lambda>a.
     Inr (compute_grid (mean a)))"

text \<open>Cell 25: the field is persisted. Cell 27: the mean of the persisted array.\<close>

definition air_temp :: "dataset \<Rightarrow> py_error + data_array" where
  "air_temp ds =
     bind_result (getitem ds ''air_temperature_at_2_metres'') (\<lambda>a. Inr (persist a))"

definition temp_mean :: "dataset \<Rightarrow> py_error + real list list" where
  "temp_mean ds = bind_result (air_temp ds) (\<lambda>a. Inr (compute_grid (mean a)))"

subsection \<open>Cell 32: the locations\<close>

record loc =
  name :: string
  lon :: real
  lat :: real


text \<open>The body of the loop that converts westward longitudes to degrees east.\<close>

definition degrees_east :: "loc \<Rightarrow> loc" where
  "degrees_east l = (if loc.lon l < 0 then l\<lparr>loc.lon := 360 + loc.lon l\<rparr> else l)"


subsection \<open>Cell 33: the time series at a location\<close>

text \<open>
  Modelled from the spec: the nearest-neighbour lookup of the array library, not part of
  the repository: given a target coordinate, select the nearest available grid point (no
  interpolation). The library asks for an index without duplicates that is increasing or
  decreasing and raises otherwise; in an empty index nothing is found. Of two grid points
  equally near, the one with the larger coordinate is taken.
\<close>

definition closer :: "real \<Rightarrow> real \<Rightarrow> real \<Rightarrow> bool" where
  "closer t x y = (\<bar>x - t\<bar> < \<bar>y - t\<bar> \<or> (\<bar>x - t\<bar> = \<bar>y - t\<bar> \<and> y < x))"

fun argnearest :: "real \<Rightarrow> real list \<Rightarrow> nat" where
  "argnearest t [] = 0"
| "argnearest t [x] = 0"
| "argnearest t (x # y # ys) =
     (let k = argnearest t (y # ys)
      in if closer t ((y # ys) ! k) x then Suc k else 0)"

definition get_loc_nearest :: "real list \<Rightarrow> real \<Rightarrow> py_error + nat" where
  "get_loc_nearest idx t =
     (if idx = [] then Inl (KeyError ''not all values found in index'')
      else if \<not> distinct idx then Inl (ValueError ''index is not unique'')
      else if \<not> (is_monotonic_increasing idx \<or> is_monotonic_decreasing idx) then
        Inl (ValueError ''index must be monotonic increasing or decreasing'')
      else Inr (argnearest t idx))"

text \<open>
  The dataset selected at one point: the coordinates of the grid cell taken, and for each
  field the time series of that cell.
\<close>

record point_dataset =
  cell_lon :: real
  cell_lat :: real
  series :: "(string \<times> dask_series) list"

definition sel_nearest :: "dataset \<Rightarrow> real \<Rightarrow> real \<Rightarrow> py_error + point_dataset" where
  "sel_nearest ds lon0 lat0 =
     bind_result (get_loc_nearest (dataset.lon ds) lon0) (\<lambda>j.
     bind_result (get_loc_nearest (dataset.lat ds) lat0) (\<lambda>i.
     Inr \<lparr>cell_lon = dataset.lon ds ! j,
          cell_lat = dataset.lat ds ! i,
          series = map (\<lambda>(name, v). (name, Point i j (data v))) (data_vars ds)\<rparr>))"

text \<open>
  \<open>air_temp_ds\<close> is the persisted temperature field as a dataset of its own, on the
  coordinates of \<open>ds\<close>; \<open>ds2\<close> is the selection the loop makes for one location.
\<close>

definition air_temp_ds :: "dataset \<Rightarrow> py_error + dataset" where
  "air_temp_ds ds =
     bind_result (air_temp ds) (\<lambda>a.
     Inr (ds\<lparr>data_vars := [(''air_temperature_at_2_metres'', a)]\<rparr>))"

definition ds2 :: "dataset \<Rightarrow> loc \<Rightarrow> py_error + point_dataset" where
  "ds2 ds l = sel_nearest ds (loc.lon l) (loc.lat l)"

section \<open>Observations and example states\<close>

text \<open>
  The statements below run a cell twice and count the transfers a run has added to the
  log; the example states are those the statements are evaluated at.
\<close>

definition fetch_twice :: "string \<Rightarrow> string \<Rightarrow> world \<Rightarrow> py_error + world" where
  "fetch_twice key path w = bind_result (fetch key path w) (fetch key path)"

definition download_metadata_twice :: "datetime_date \<Rightarrow> world \<Rightarrow> py_error + world" where
  "download_metadata_twice dt w = bind_result (download_metadata dt w) (download_metadata dt)"

definition transfers_made :: "world \<Rightarrow> py_error + world \<Rightarrow> nat option" where
  "transfers_made w r =
     (case r of
        Inl e \<Rightarrow> None
      | Inr w' \<Rightarrow> Some (length (transfers w') - length (transfers w)))"

text \<open>A working directory that already holds the temperature file, and one that is empty.\<close>

definition cached_world :: world where
  "cached_world =
     \<lparr>s3 = (\<lambda>bucket. [''2017/01/data/air_temperature_at_2_metres.nc'' \<mapsto> ''remote bytes'']),
      files = [''201701_air_temperature_at_2_metres.nc'' \<mapsto> ''local bytes''],
      transfers = [],
      stdout = []\<rparr>"

definition fresh_world :: world where
  "fresh_world =
     \<lparr>s3 = (\<lambda>bucket. [''2017/01/data/air_temperature_at_2_metres.nc'' \<mapsto> ''remote bytes'']),
      files = Map.empty,
      transfers = [],
      stdout = []\<rparr>"

definition downloaded_world :: world where
  "downloaded_world =
     \<lparr>s3 = (\<lambda>bucket. [''2017/01/data/air_temperature_at_2_metres.nc'' \<mapsto> ''remote bytes'']),
      files = [''201701_air_temperature_at_2_metres.nc'' \<mapsto> ''remote bytes''],
      transfers = [(''era5-pds'', ''2017/01/data/air_temperature_at_2_metres.nc'',
                    ''201701_air_temperature_at_2_metres.nc'')],
      stdout = [''Downloading 2017/01/data/air_temperature_at_2_metres.nc from S3...'']\<rparr>"

text \<open>A working directory that holds an older \<open>main.nc\<close>.\<close>

definition stale_world :: world where
  "stale_world =
     \<lparr>s3 = (\<lambda>bucket. [''2017/01/main.nc'' \<mapsto> ''remote metadata'']),
      files = [''main.nc'' \<mapsto> ''stale metadata''],
      transfers = [],
      stdout = []\<rparr>"

text \<open>
  The values of a field once computed, and its unit label: what \<open>ds[var].compute()\<close> and
  \<open>ds[var].attrs['units']\<close> give.
\<close>

definition field_values :: "dataset \<Rightarrow> string \<Rightarrow> py_error + cube" where
  "field_values ds var = bind_result (getitem ds var) (\<lambda>a. Inr (compute (data a)))"

definition units :: "dataset \<Rightarrow> string \<Rightarrow> py_error + string option" where
  "units ds var = bind_result (getitem ds var) (\<lambda>a. Inr (map_of (attrs a) ''units''))"

text \<open>The field that cell 17 stores for a pressure field and for a temperature field.\<close>

definition converted_pressure :: "data_array \<Rightarrow> data_array" where
  "converted_pressure p = \<lparr>data = TrueDiv (data p) 100.0, attrs = [(''units'', ''hPa'')]\<rparr>"

definition converted_temperature :: "data_array \<Rightarrow> data_array" where
  "converted_temperature t = \<lparr>data = Subtract (data t) 273.15, attrs = [(''units'', ''C'')]\<rparr>"

text \<open>
  A small dataset on a grid of four latitudes (descending) and four longitudes (ascending)
  with two time steps, temperatures in Kelvin and pressures in Pascal; and the first
  location of cell 32.
\<close>

definition example_temperature :: data_array where
  "example_temperature =
     \<lparr>data = OnDisk
         [[[250, 252, 254, 256], [260, 262, 264, 266], [270, 272, 274, 276], [280, 282, 284, 286]],
          [[254, 256, 258, 260], [264, 266, 268, 270], [274, 276, 278, 280], [284, 286, 288, 290]]],
      attrs = [(''units'', ''K'')]\<rparr>"

definition example_pressure :: data_array where
  "example_pressure =
     \<lparr>data = OnDisk
         [[[100000, 100100, 100200, 100300], [100500, 100600, 100700, 100800],
           [101000, 101100, 101200, 101300], [101500, 101600, 101700, 101800]],
          [[100200, 100300, 100400, 100500], [100700, 100800, 100900, 101000],
           [101200, 101300, 101400, 101500], [101700, 101800, 101900, 102000]]],
      attrs = [(''units'', ''Pa'')]\<rparr>"

definition example_ds :: dataset where
  "example_ds =
     \<lparr>time0 = [0, 3600],
      lat = [60, 45, 30, 15],
      lon = [200, 220, 250, 270],
      data_vars = [(''air_temperature_at_2_metres'', example_temperature),
                   (''air_pressure_at_mean_sea_level'', example_pressure)]\<rparr>"

definition santa_barbara :: loc where
  "santa_barbara = \<lparr>name = ''santa_barbara'', lon = - 119.6982, lat = 34.4208\<rparr>"

text \<open>
  A coordinate the library can select ranges from without looking a label up: one that is
  increasing or decreasing. Bounds run opposite to the coordinate when they descend along
  a coordinate the library treats as increasing, or ascend along a decreasing one. A value
  lies in a closed range.
\<close>

definition monotonic :: "real list \<Rightarrow> bool" where
  "monotonic idx = (is_monotonic_increasing idx \<or> is_monotonic_decreasing idx)"

definition opposite_order :: "real list \<Rightarrow> real \<Rightarrow> real \<Rightarrow> bool" where
  "opposite_order idx a b =
     (if is_monotonic_increasing idx then b < a else is_monotonic_decreasing idx \<and> a < b)"

definition in_range :: "real \<Rightarrow> real \<Rightarrow> real \<Rightarrow> bool" where
  "in_range lo hi x = (lo \<le> x \<and> x \<le> hi)"

text \<open>A location that lies exactly on a grid point of the example dataset.\<close>

definition grid_point :: loc where
  "grid_point = \<lparr>name = ''grid_point'', lon = 220, lat = 45\<rparr>"

section \<open>Properties of the acquisition cells\<close>

subsection \<open>Names of the remote object and of the local file\<close>

lemma s3_data_key_eq:
  "s3_data_key yr mo var = Inr (yr @ ''/'' @ mo @ ''/data/'' @ var @ ''.nc'')"
  unfolding s3_data_key_def format_def s3_data_ptrn_def by simp

lemma data_file_eq: "data_file yr mo var = Inr (yr @ mo @ ''_'' @ var @ ''.nc'')"
  unfolding data_file_def format_def data_file_ptrn_def by simp

lemma metadata_key_eq:
  "metadata_key dt = decimal (year dt) @ ''/'' @ two_digits (month dt) @ ''/main.nc''"
  by (simp add: metadata_key_def prefix_def metadata_file_def)

lemma date_strings: "decimal (year date) = ''2017''" "two_digits (month date) = ''01''"
  by (simp_all add: date_def decimal.simps two_digits_def digit_char_def)

lemma cell10_names:
  "cell10 date w =
     bind_result
       (fetch ''2017/01/data/air_temperature_at_2_metres.nc''
          ''201701_air_temperature_at_2_metres.nc'' w)
       (fetch ''2017/01/data/air_pressure_at_mean_sea_level.nc''
          ''201701_air_pressure_at_mean_sea_level.nc'')"
proof -
  have step: "fetch_var date var w' =
      fetch (''2017/01/data/'' @ var @ ''.nc'') (''201701_'' @ var @ ''.nc'') w'" for var w'
    by (simp add: fetch_var_def date_strings s3_data_key_eq data_file_eq Let_def)
  then have fn: "fetch_var date var =
      fetch (''2017/01/data/'' @ var @ ''.nc'') (''201701_'' @ var @ ''.nc'')" for var
    by (intro ext)
  have "fetch_vars date [var] w' = fetch_var date var w'" for var w'
    by (cases "fetch_var date var w'") simp_all
  then have one: "fetch_vars date [var] = fetch_var date var" for var
    by (intro ext)
  show ?thesis
    by (simp add: cell10_def var_list_def one fn var1_def var2_def)
qed

text \<open>
  Claim C8. For every year, month and variable name, the two patterns of cell 10 format to
  exactly \<open>{year}/{month}/data/{variable}.nc\<close> (the remote object key) and
  \<open>{year}{month}_{variable}.nc\<close> (the local file name), and neither formatting raises. One
  iteration of the loop fetches under exactly these two names, the year and the month
  being those of the date rendered by \<open>%Y\<close> and \<open>%m\<close>; with the date and the two variables
  of the notebook the loop fetches the temperature and then the pressure of January 2017.
\<close>

theorem fetch_step_names:
  "s3_data_key yr mo var = Inr (yr @ ''/'' @ mo @ ''/data/'' @ var @ ''.nc'') \<and>
   data_file yr mo var = Inr (yr @ mo @ ''_'' @ var @ ''.nc'') \<and>
   fetch_var dt var w =
     fetch (decimal (year dt) @ ''/'' @ two_digits (month dt) @ ''/data/'' @ var @ ''.nc'')
           (decimal (year dt) @ two_digits (month dt) @ ''_'' @ var @ ''.nc'') w \<and>
   cell10 date w =
     bind_result
       (fetch ''2017/01/data/air_temperature_at_2_metres.nc''
          ''201701_air_temperature_at_2_metres.nc'' w)
       (fetch ''2017/01/data/air_pressure_at_mean_sea_level.nc''
          ''201701_air_pressure_at_mean_sea_level.nc'')"
  by (simp only: cell10_names) (simp add: fetch_var_def s3_data_key_eq data_file_eq Let_def)

subsection \<open>The guarded fetch\<close>

lemma fetch_present: "isfile w path \<Longrightarrow> fetch key path w = Inr w"
  by (simp add: fetch_def)

lemma fetch_absent:
  "\<not> isfile w path \<Longrightarrow> s3 w era5_bucket key = Some body \<Longrightarrow>
   fetch key path w =
     Inr (w\<lparr>files := (files w)(path \<mapsto> body),
            transfers := transfers w @ [(era5_bucket, key, path)],
            stdout := stdout w @ [''Downloading '' @ key @ '' from S3...'']\<rparr>)"
  by (simp add: fetch_def download_file_def print_def)

lemma fetch_Inr_isfile: "fetch key path w = Inr w1 \<Longrightarrow> isfile w1 path"
  by (auto simp: fetch_def download_file_def print_def isfile_def
      split: if_splits option.splits)

lemma fetch_Inr_transfers:
  "fetch key path w = Inr w1 \<Longrightarrow>
   transfers w1 = transfers w @ (if isfile w path then [] else [(era5_bucket, key, path)])"
  by (auto simp: fetch_def download_file_def print_def isfile_def
      split: if_splits option.splits)

text \<open>
  Claim C1, as stated, fails: "calling the fetch step twice with the same key and path
  performs exactly one network transfer" does not hold in a working directory that already
  holds the file. There both calls find the file, and no transfer is made at all.
\<close>

theorem fetch_twice_cached_no_transfer:
  "transfers_made cached_world
     (fetch_twice ''2017/01/data/air_temperature_at_2_metres.nc''
        ''201701_air_temperature_at_2_metres.nc'' cached_world) = Some 0 \<and>
   transfers_made cached_world
     (fetch_twice ''2017/01/data/air_temperature_at_2_metres.nc''
        ''201701_air_temperature_at_2_metres.nc'' cached_world) \<noteq> Some 1"
  by (simp add: transfers_made_def fetch_twice_def fetch_def isfile_def cached_world_def)

text \<open>
  Claim C1, amended. For every fetch with a remote key and a local path: if a file at the
  local path already exists, the fetch makes no transfer and leaves the world, the file
  included, unchanged; otherwise, the remote object being there, it copies the object to
  the local path and logs one transfer. Consequently a second call after a first call that
  returned is a no-op, and the two calls together make exactly one transfer when the file
  was absent before the first call, and none when it was already there.
\<close>

theorem fetch_idempotent:
  "(isfile w path \<longrightarrow> fetch key path w = Inr w) \<and>
   (\<not> isfile w path \<and> s3 w era5_bucket key = Some body \<longrightarrow>
      (\<exists>w1. fetch key path w = Inr w1 \<and> files w1 = (files w)(path \<mapsto> body) \<and>
            transfers w1 = transfers w @ [(era5_bucket, key, path)])) \<and>
   (fetch key path w = Inr w1 \<longrightarrow>
      fetch key path w1 = Inr w1 \<and>
      fetch_twice key path w = Inr w1 \<and>
      transfers_made w (fetch_twice key path w) = Some (if isfile w path then 0 else 1))"
proof (intro conjI impI)
  assume "isfile w path"
  then show "fetch key path w = Inr w" by (rule fetch_present)
next
  assume "\<not> isfile w path \<and> s3 w era5_bucket key = Some body"
  then show "\<exists>w1. fetch key path w = Inr w1 \<and> files w1 = (files w)(path \<mapsto> body) \<and>
            transfers w1 = transfers w @ [(era5_bucket, key, path)]"
    by (simp add: fetch_absent)
next
  assume first: "fetch key path w = Inr w1"
  show again: "fetch key path w1 = Inr w1"
    using fetch_Inr_isfile [OF first] by (rule fetch_present)
  show "fetch_twice key path w = Inr w1"
    by (simp add: fetch_twice_def first again)
  then show "transfers_made w (fetch_twice key path w) = Some (if isfile w path then 0 else 1)"
    using fetch_Inr_transfers [OF first] by (simp add: transfers_made_def)
qed

theorem fetch_idempotent_witness:
  "isfile cached_world ''201701_air_temperature_at_2_metres.nc'' \<and>
   fetch ''2017/01/data/air_temperature_at_2_metres.nc''
     ''201701_air_temperature_at_2_metres.nc'' cached_world = Inr cached_world \<and>
   \<not> isfile fresh_world ''201701_air_temperature_at_2_metres.nc'' \<and>
   s3 fresh_world era5_bucket ''2017/01/data/air_temperature_at_2_metres.nc'' =
     Some ''remote bytes'' \<and>
   fetch ''2017/01/data/air_temperature_at_2_metres.nc''
     ''201701_air_temperature_at_2_metres.nc'' fresh_world = Inr downloaded_world \<and>
   fetch ''2017/01/data/air_temperature_at_2_metres.nc''
     ''201701_air_temperature_at_2_metres.nc'' downloaded_world = Inr downloaded_world \<and>
   transfers_made fresh_world
     (fetch_twice ''2017/01/data/air_temperature_at_2_metres.nc''
        ''201701_air_temperature_at_2_metres.nc'' fresh_world) = Some 1"
proof -
  have a: "isfile cached_world ''201701_air_temperature_at_2_metres.nc''"
    by (simp add: isfile_def cached_world_def)
  have b: "\<not> isfile fresh_world ''201701_air_temperature_at_2_metres.nc''"
    by (simp add: isfile_def fresh_world_def)
  have c: "s3 fresh_world era5_bucket ''2017/01/data/air_temperature_at_2_metres.nc'' =
      Some ''remote bytes''"
    by (simp add: fresh_world_def)
  have d: "fetch ''2017/01/data/air_temperature_at_2_metres.nc''
      ''201701_air_temperature_at_2_metres.nc'' fresh_world = Inr downloaded_world"
    by (simp add: fetch_def isfile_def download_file_def print_def era5_bucket_def
        fresh_world_def downloaded_world_def)
  note cached = fetch_idempotent [of cached_world "''201701_air_temperature_at_2_metres.nc''"
      "''2017/01/data/air_temperature_at_2_metres.nc''" "''remote bytes''" cached_world]
  note fresh = fetch_idempotent [of fresh_world "''201701_air_temperature_at_2_metres.nc''"
      "''2017/01/data/air_temperature_at_2_metres.nc''" "''remote bytes''" downloaded_world]
  from cached a have e: "fetch ''2017/01/data/air_temperature_at_2_metres.nc''
      ''201701_air_temperature_at_2_metres.nc'' cached_world = Inr cached_world"
    by blast
  from fresh d have f: "fetch ''2017/01/data/air_temperature_at_2_metres.nc''
      ''201701_air_temperature_at_2_metres.nc'' downloaded_world = Inr downloaded_world"
    by blast
  from fresh d have "transfers_made fresh_world
      (fetch_twice ''2017/01/data/air_temperature_at_2_metres.nc''
         ''201701_air_temperature_at_2_metres.nc'' fresh_world) =
      Some (if isfile fresh_world ''201701_air_temperature_at_2_metres.nc'' then 0 else 1)"
    by blast
  with b have g: "transfers_made fresh_world
      (fetch_twice ''2017/01/data/air_temperature_at_2_metres.nc''
         ''201701_air_temperature_at_2_metres.nc'' fresh_world) = Some 1"
    by (simp only: if_False)
  from a e b c d f g show ?thesis by (intro conjI)
qed

subsection \<open>The metadata download\<close>

text \<open>
  Claim C9. The download of \<open>main.nc\<close> in cell 8 is unconditional. Whenever the remote
  object is there, a run transfers it and replaces the local \<open>main.nc\<close> with it, whether or
  not a local \<open>main.nc\<close> existed, so that two runs make two transfers; when the remote object
  is missing the run raises. What a run returns does not depend on the local \<open>main.nc\<close> it
  starts from: no existence check precedes the download. The fetch of a variable, in
  contrast, returns the world unchanged when the local file is there.
\<close>

theorem download_metadata_unconditional:
  "(s3 w era5_bucket (metadata_key dt) = Some body \<longrightarrow>
      (\<exists>w1. download_metadata dt w = Inr w1 \<and>
            files w1 = (files w)(metadata_file \<mapsto> body) \<and>
            transfers w1 = transfers w @ [(era5_bucket, metadata_key dt, metadata_file)]) \<and>
      transfers_made w (download_metadata_twice dt w) = Some 2) \<and>
   (s3 w era5_bucket (metadata_key dt) = None \<longrightarrow>
      download_metadata dt w = Inl (ClientError (metadata_key dt))) \<and>
   map_sum id (\<lambda>x. (files x, transfers x))
     (download_metadata dt (w\<lparr>files := (files w)(metadata_file := old)\<rparr>)) =
   map_sum id (\<lambda>x. (files x, transfers x)) (download_metadata dt w) \<and>
   (isfile w path \<longrightarrow> fetch key path w = Inr w)"
  by (auto simp: download_metadata_def download_metadata_twice_def download_file_def
      transfers_made_def fetch_def split: option.splits)

theorem download_metadata_unconditional_witness:
  "isfile stale_world ''main.nc'' \<and>
   s3 stale_world era5_bucket (metadata_key date) = Some ''remote metadata'' \<and>
   map_sum id (\<lambda>x. (files x ''main.nc'', transfers x)) (download_metadata date stale_world) =
     Inr (Some ''remote metadata'', [(''era5-pds'', ''2017/01/main.nc'', ''main.nc'')]) \<and>
   transfers_made stale_world (download_metadata_twice date stale_world) = Some 2 \<and>
   fetch ''2017/01/main.nc'' ''main.nc'' stale_world = Inr stale_world"
proof -
  have k: "metadata_key date = ''2017/01/main.nc''"
    by (simp add: metadata_key_eq date_def decimal.simps two_digits_def digit_char_def)
  have a: "isfile stale_world ''main.nc''"
    by (simp add: isfile_def stale_world_def)
  have b: "s3 stale_world era5_bucket (metadata_key date) = Some ''remote metadata''"
    by (simp add: stale_world_def k)
  note m = download_metadata_unconditional [of stale_world date "''remote metadata''" None
      "''main.nc''" "''2017/01/main.nc''"]
  from m b obtain w1 where w1: "download_metadata date stale_world = Inr w1"
      "files w1 = (files stale_world)(metadata_file \<mapsto> ''remote metadata'')"
      "transfers w1 = transfers stale_world @ [(era5_bucket, metadata_key date, metadata_file)]"
    by blast
  have c: "map_sum id (\<lambda>x. (files x ''main.nc'', transfers x))
      (download_metadata date stale_world) =
      Inr (Some ''remote metadata'', [(''era5-pds'', ''2017/01/main.nc'', ''main.nc'')])"
    unfolding w1(1)
    by (simp add: w1(2,3) k metadata_file_def era5_bucket_def stale_world_def)
  from m b have d: "transfers_made stale_world (download_metadata_twice date stale_world) = Some 2"
    by blast
  from m a have e: "fetch ''2017/01/main.nc'' ''main.nc'' stale_world = Inr stale_world"
    by blast
  from a b c d e show ?thesis by (intro conjI)
qed

section \<open>Properties of the transformation cells\<close>

subsection \<open>The spatial subset\<close>

lemma py_slice_Nil [simp]: "py_slice [] s e = []"
  by (simp add: py_slice_def)

lemma py_slice_Cons_Suc [simp]: "py_slice (x # xs) (Suc s) (Suc e) = py_slice xs s e"
  by (simp add: py_slice_def)

lemma py_slice_empty: "e \<le> s \<Longrightarrow> py_slice xs s e = []"
  by (simp add: py_slice_def)

lemma py_slice_0: "py_slice xs 0 e = take e xs"
  by (simp add: py_slice_def)


lemma takeWhile_filter_sorted:
  fixes xs :: "real list"
  assumes "sorted xs" and "\<And>x y. x \<le> y \<Longrightarrow> P y \<Longrightarrow> P x"
  shows "takeWhile P xs = filter P xs"
  using assms(1)
proof (induction xs)
  case Nil
  then show ?case by simp
next
  case (Cons x xs)
  show ?case
  proof (cases "P x")
    case True
    with Cons show ?thesis by simp
  next
    case False
    have "\<not> P y" if "y \<in> set xs" for y
      using Cons.prems that False assms(2) [of x y] by auto
    then have "filter P xs = []" by (simp add: filter_empty_conv)
    with False show ?thesis by simp
  qed
qed

lemma takeWhile_length_mono:
  assumes "\<And>x. P x \<Longrightarrow> Q x"
  shows "length (takeWhile P xs) \<le> length (takeWhile Q xs)"
  using assms by (induction xs) auto

lemma slice_sorted:
  fixes xs :: "real list"
  assumes "sorted xs"
  shows "py_slice xs (length (takeWhile (\<lambda>x. x < a) xs)) (length (takeWhile (\<lambda>x. x \<le> b) xs)) =
         filter (in_range a b) xs"
  using assms
proof (induction xs)
  case Nil
  then show ?case by simp
next
  case (Cons x xs)
  then have sorted_tl: "sorted xs" and least: "\<And>y. y \<in> set xs \<Longrightarrow> x \<le> y"
    by auto
  show ?case
  proof (cases "x < a")
    case below: True
    show ?thesis
    proof (cases "x \<le> b")
      case True
      with below Cons.IH [OF sorted_tl] show ?thesis by (simp add: in_range_def)
    next
      case False
      then have "\<not> in_range a b y" if "y \<in> set (x # xs)" for y
        using least that by (fastforce simp: in_range_def)
      then have "filter (in_range a b) (x # xs) = []"
        unfolding filter_empty_conv by blast
      with below False show ?thesis by (simp add: py_slice_empty)
    qed
  next
    case False
    then have ge: "a \<le> y" if "y \<in> set (x # xs)" for y
      using least that by fastforce
    have "py_slice (x # xs) 0 (length (takeWhile (\<lambda>x. x \<le> b) (x # xs))) =
        takeWhile (\<lambda>x. x \<le> b) (x # xs)"
      unfolding py_slice_0 by (rule takeWhile_eq_take [symmetric])
    also have "\<dots> = filter (\<lambda>x. x \<le> b) (x # xs)"
      by (rule takeWhile_filter_sorted [OF Cons.prems]) simp
    also have "\<dots> = filter (in_range a b) (x # xs)"
      by (rule filter_cong) (use ge in \<open>auto simp: in_range_def\<close>)
    finally show ?thesis using False by simp
  qed
qed

lemma slice_sorted_rev:
  fixes xs :: "real list"
  assumes "sorted (rev xs)"
  shows "py_slice xs (length xs - length (takeWhile (\<lambda>x. x \<le> a) (rev xs)))
                     (length xs - length (takeWhile (\<lambda>x. x < b) (rev xs))) =
         filter (in_range b a) xs"
proof -
  define ys where "ys = rev xs"
  define p where "p = length (takeWhile (\<lambda>x. x \<le> a) ys)"
  define q where "q = length (takeWhile (\<lambda>x. x < b) ys)"
  define n where "n = length ys"
  have pn: "p \<le> n" and qn: "q \<le> n"
    by (simp_all add: p_def q_def n_def length_takeWhile_le)
  have xs: "xs = rev ys" by (simp add: ys_def)
  have "py_slice (rev ys) (n - p) (n - q) = rev (py_slice ys q p)"
  proof -
    have "py_slice (rev ys) (n - p) (n - q) = take (p - q) (rev (take p ys))"
      using pn qn by (simp add: py_slice_def drop_rev n_def)
    also have "\<dots> = rev (drop (p - (p - q)) (take p ys))"
      using pn by (simp add: take_rev n_def min_def)
    also have "drop (p - (p - q)) (take p ys) = py_slice ys q p"
    proof (cases "q \<le> p")
      case True
      then show ?thesis by (simp add: py_slice_def drop_take)
    next
      case False
      then show ?thesis by (simp add: py_slice_def)
    qed
    finally show ?thesis .
  qed
  also have "py_slice ys q p = filter (in_range b a) ys"
    unfolding p_def q_def using assms by (simp add: slice_sorted ys_def)
  finally show ?thesis
    by (simp add: xs rev_filter n_def p_def q_def)
qed

lemma slice_indexer_increasing:
  assumes "is_monotonic_increasing idx"
  shows "\<exists>s e. slice_indexer idx a b = Inr (s, e) \<and> py_slice idx s e = filter (in_range a b) idx
           \<and> (b < a \<longrightarrow> e \<le> s)"
proof -
  have "length (takeWhile (\<lambda>x. x \<le> b) idx) \<le> length (takeWhile (\<lambda>x. x < a) idx)" if "b < a"
    by (rule takeWhile_length_mono) (use that in simp)
  then show ?thesis
    using assms slice_sorted [of idx a b]
    by (simp add: slice_indexer_def get_slice_bound_def is_monotonic_increasing_def)
qed

lemma slice_indexer_decreasing:
  assumes "\<not> is_monotonic_increasing idx" and "is_monotonic_decreasing idx"
  shows "\<exists>s e. slice_indexer idx a b = Inr (s, e) \<and> py_slice idx s e = filter (in_range b a) idx
           \<and> (a < b \<longrightarrow> e \<le> s)"
proof -
  have "length (takeWhile (\<lambda>x. x \<le> a) (rev idx)) \<le> length (takeWhile (\<lambda>x. x < b) (rev idx))"
    if "a < b"
    by (rule takeWhile_length_mono) (use that in simp)
  then show ?thesis
    using assms slice_sorted_rev [of idx a b]
    by (auto simp add: slice_indexer_def get_slice_bound_def is_monotonic_decreasing_def)
qed

lemma slice_indexer_monotonic:
  assumes "monotonic idx"
  shows "\<exists>s e. slice_indexer idx a b = Inr (s, e) \<and> (opposite_order idx a b \<longrightarrow> e \<le> s)"
proof (cases "is_monotonic_increasing idx")
  case True
  with slice_indexer_increasing [OF True, of a b] show ?thesis
    by (auto simp: opposite_order_def)
next
  case False
  with assms have "is_monotonic_decreasing idx" by (simp add: monotonic_def)
  with slice_indexer_decreasing [OF False this, of a b] False show ?thesis
    by (auto simp: opposite_order_def)
qed

lemma sel_Inr:
  "slice_indexer (dataset.lat ds) a b = Inr (s, e) \<Longrightarrow>
   slice_indexer (dataset.lon ds) c d = Inr (s', e') \<Longrightarrow>
   sel ds (a, b) (c, d) = Inr (isel ds s e s' e')"
  by (simp add: sel_def)

lemma isel_coords:
  "dataset.lat (isel ds s e s' e') = py_slice (dataset.lat ds) s e"
  "dataset.lon (isel ds s e s' e') = py_slice (dataset.lon ds) s' e'"
  "time0 (isel ds s e s' e') = time0 ds"
  by (simp_all add: isel_def)



lemma cells_Getitem_empty:
  assumes "e \<le> s \<or> e' \<le> s'"
  shows "cells (compute (Getitem s e s' e' g)) = []"
  using assms by (auto simp: cells_def py_slice_empty)


lemma example_coords:
  "is_monotonic_decreasing (dataset.lat example_ds)"
  "\<not> is_monotonic_increasing (dataset.lat example_ds)"
  "is_monotonic_increasing (dataset.lon example_ds)"
  by (simp_all add: example_ds_def is_monotonic_decreasing_def is_monotonic_increasing_def)


text \<open>
  Claim C5. For every dataset on a grid (both coordinates increasing or decreasing), a
  selection whose bounds for one coordinate run opposite to that coordinate, such as
  ascending latitude bounds against a descending latitude coordinate, does not raise: it
  returns a dataset in which that coordinate is empty and no field has any cell.
\<close>

theorem sel_opposite_order_empty:
  assumes "monotonic (dataset.lat ds)" and "monotonic (dataset.lon ds)"
    and "opposite_order (dataset.lat ds) a b \<or> opposite_order (dataset.lon ds) c d"
  shows "\<exists>ds'. sel ds (a, b) (c, d) = Inr ds' \<and>
     (dataset.lat ds' = [] \<or> dataset.lon ds' = []) \<and>
     (\<forall>(var, v) \<in> set (data_vars ds'). cells (compute (data v)) = [])"
proof -
  from slice_indexer_monotonic [OF assms(1), of a b]
  obtain s e where lat: "slice_indexer (dataset.lat ds) a b = Inr (s, e)"
    "opposite_order (dataset.lat ds) a b \<longrightarrow> e \<le> s"
    by blast
  from slice_indexer_monotonic [OF assms(2), of c d]
  obtain s' e' where lon: "slice_indexer (dataset.lon ds) c d = Inr (s', e')"
    "opposite_order (dataset.lon ds) c d \<longrightarrow> e' \<le> s'"
    by blast
  from assms(3) lat(2) lon(2) have empty: "e \<le> s \<or> e' \<le> s'" by blast
  then have "dataset.lat (isel ds s e s' e') = [] \<or> dataset.lon (isel ds s e s' e') = []"
    by (auto simp: isel_coords py_slice_empty)
  moreover have "cells (compute (data v)) = []" if "(var, v) \<in> set (data_vars (isel ds s e s' e'))"
    for var v
    using that cells_Getitem_empty [OF empty] by (auto simp: isel_def)
  ultimately show ?thesis
    using sel_Inr [OF lat(1) lon(1)] by blast
qed

theorem sel_opposite_order_empty_witness:
  "monotonic (dataset.lat example_ds) \<and> monotonic (dataset.lon example_ds) \<and>
   opposite_order (dataset.lat example_ds) 30 50 \<and>
   (\<exists>ds'. sel example_ds (30, 50) (220, 255) = Inr ds' \<and> dataset.lat ds' = [] \<and>
      dataset.lon ds' = [220, 250])"
proof -
  have a: "monotonic (dataset.lat example_ds)" "monotonic (dataset.lon example_ds)"
    using example_coords by (simp_all add: monotonic_def)
  have b: "opposite_order (dataset.lat example_ds) 30 50"
    using example_coords by (simp add: opposite_order_def)
  from sel_opposite_order_empty [OF a, of 30 50 220 255] b
  obtain ds' where r: "sel example_ds (30, 50) (220, 255) = Inr ds'"
    by blast
  then have "dataset.lat ds' = [] \<and> dataset.lon ds' = [220, 250]"
    by (auto simp: sel_def slice_indexer_def get_slice_bound_def isel_def py_slice_def
        is_monotonic_increasing_def is_monotonic_decreasing_def example_ds_def)
  with r a b show ?thesis by blast
qed

subsection \<open>Unit conversion\<close>

lemma getitem_setitem:
  "getitem (setitem ds k a) k' = (if k' = k then Inr a else getitem ds k')"
  by (simp add: getitem_def setitem_def update_conv')

lemma set_attr_Inr:
  "getitem ds k = Inr a \<Longrightarrow>
   set_attr ds k key val = Inr (setitem ds k (a\<lparr>attrs := AList.update key val (attrs a)\<rparr>))"
  by (simp add: set_attr_def)

lemma cells_map_cube: "cells (map_cube f c) = map f (cells c)"
  by (simp add: cells_def map_cube_def map_concat)

lemma map_cube_comp: "map_cube f (map_cube g c) = map_cube (f \<circ> g) c"
  by (simp add: map_cube_def comp_def)

lemma map_cube_id: "(\<And>x. f x = x) \<Longrightarrow> map_cube f c = c"
  by (simp add: map_cube_def map_idI)


lemma setitem_coords [simp]:
  "dataset.lat (setitem ds k a) = dataset.lat ds"
  "dataset.lon (setitem ds k a) = dataset.lon ds"
  "time0 (setitem ds k a) = time0 ds"
  by (simp_all add: setitem_def)

lemma cell17_Inr:
  assumes p: "getitem ds ''air_pressure_at_mean_sea_level'' = Inr p"
    and t: "getitem ds ''air_temperature_at_2_metres'' = Inr t"
  shows "\<exists>ds'. cell17 ds = Inr ds' \<and>
     getitem ds' ''air_pressure_at_mean_sea_level'' = Inr (converted_pressure p) \<and>
     getitem ds' ''air_temperature_at_2_metres'' = Inr (converted_temperature t) \<and>
     dataset.lat ds' = dataset.lat ds \<and> dataset.lon ds' = dataset.lon ds \<and> time0 ds' = time0 ds"
  by (simp add: cell17_def p t getitem_setitem set_attr_def truediv_def subtract_def
      converted_pressure_def converted_temperature_def)

lemma cell17_Inr_iff:
  "(\<exists>ds'. cell17 ds = Inr ds') \<longleftrightarrow>
   (\<exists>p t. getitem ds ''air_pressure_at_mean_sea_level'' = Inr p \<and>
          getitem ds ''air_temperature_at_2_metres'' = Inr t)"
  apply (cases "getitem ds ''air_pressure_at_mean_sea_level''"; cases "getitem ds ''air_temperature_at_2_metres''")
  apply (simp_all add: cell17_def getitem_setitem set_attr_def)
  done

lemma example_getitem:
  "getitem example_ds ''air_pressure_at_mean_sea_level'' = Inr example_pressure"
  "getitem example_ds ''air_temperature_at_2_metres'' = Inr example_temperature"
  by (simp_all add: getitem_def example_ds_def)


text \<open>
  Claim C3. On a dataset that holds both fields, cell 17 returns, and the values it leaves
  are a linear map of the values it found, applied to every value of the field: each
  pressure \<open>p\<close> becomes \<open>p / 100.0\<close> and each temperature \<open>t\<close> becomes \<open>t - 273.15\<close>, the
  unit labels becoming \<open>hPa\<close> and \<open>C\<close>. The result is a function of the input alone.
  Applying the algebraic inverse (times \<open>100.0\<close>, plus \<open>273.15\<close>) to the converted values
  gives back the original values. Values are real numbers here, so the round trip is exact;
  rounding is outside the model.
\<close>

theorem cell17_linear:
  assumes "getitem ds ''air_pressure_at_mean_sea_level'' = Inr p"
    and "getitem ds ''air_temperature_at_2_metres'' = Inr t"
  shows "\<exists>ds'. cell17 ds = Inr ds' \<and>
     field_values ds' ''air_pressure_at_mean_sea_level'' =
       Inr (map_cube (\<lambda>x. x / 100.0) (compute (data p))) \<and>
     field_values ds' ''air_temperature_at_2_metres'' =
       Inr (map_cube (\<lambda>x. x - 273.15) (compute (data t))) \<and>
     bind_result (field_values ds' ''air_pressure_at_mean_sea_level'')
       (\<lambda>c. Inr (map_cube (\<lambda>x. x * 100.0) c)) = Inr (compute (data p)) \<and>
     bind_result (field_values ds' ''air_temperature_at_2_metres'')
       (\<lambda>c. Inr (map_cube (\<lambda>x. x + 273.15) c)) = Inr (compute (data t)) \<and>
     bind_result (field_values ds' ''air_pressure_at_mean_sea_level'') (\<lambda>c. Inr (cells c)) =
       Inr (map (\<lambda>x. x / 100.0) (cells (compute (data p)))) \<and>
     bind_result (field_values ds' ''air_temperature_at_2_metres'') (\<lambda>c. Inr (cells c)) =
       Inr (map (\<lambda>x. x - 273.15) (cells (compute (data t)))) \<and>
     units ds' ''air_pressure_at_mean_sea_level'' = Inr (Some ''hPa'') \<and>
     units ds' ''air_temperature_at_2_metres'' = Inr (Some ''C'')"
proof -
  from cell17_Inr [OF assms] obtain ds' where r: "cell17 ds = Inr ds'"
    "getitem ds' ''air_pressure_at_mean_sea_level'' = Inr (converted_pressure p)"
    "getitem ds' ''air_temperature_at_2_metres'' = Inr (converted_temperature t)"
    by blast
  have "map_cube (\<lambda>x. x * 100.0) (map_cube (\<lambda>x. x / 100.0) c) = c" for c :: cube
    by (simp add: map_cube_comp map_cube_id)
  moreover have "map_cube (\<lambda>x. x + 273.15) (map_cube (\<lambda>x. x - 273.15) c) = c" for c :: cube
    by (simp add: map_cube_comp map_cube_id)
  ultimately show ?thesis
    by (simp add: r field_values_def units_def converted_pressure_def
        converted_temperature_def cells_map_cube)
qed

theorem cell17_linear_witness:
  "getitem example_ds ''air_pressure_at_mean_sea_level'' = Inr example_pressure \<and>
   getitem example_ds ''air_temperature_at_2_metres'' = Inr example_temperature \<and>
   (\<exists>ds'. cell17 example_ds = Inr ds' \<and>
      bind_result (field_values ds' ''air_pressure_at_mean_sea_level'')
        (\<lambda>c. Inr (take 4 (cells c))) = Inr [1000, 1001, 1002, 1003] \<and>
      bind_result (field_values ds' ''air_temperature_at_2_metres'')
        (\<lambda>c. Inr (take 4 (cells c))) = Inr [- 23.15, - 21.15, - 19.15, - 17.15] \<and>
      bind_result (field_values ds' ''air_pressure_at_mean_sea_level'')
        (\<lambda>c. Inr (map_cube (\<lambda>x. x * 100.0) c)) = Inr (compute (data example_pressure)) \<and>
      bind_result (field_values ds' ''air_temperature_at_2_metres'')
        (\<lambda>c. Inr (map_cube (\<lambda>x. x + 273.15) c)) = Inr (compute (data example_temperature)))"
proof -
  from cell17_linear [OF example_getitem] obtain ds' where r: "cell17 example_ds = Inr ds'"
    "bind_result (field_values ds' ''air_pressure_at_mean_sea_level'') (\<lambda>c. Inr (cells c)) =
       Inr (map (\<lambda>x. x / 100.0) (cells (compute (data example_pressure))))"
    "bind_result (field_values ds' ''air_temperature_at_2_metres'') (\<lambda>c. Inr (cells c)) =
       Inr (map (\<lambda>x. x - 273.15) (cells (compute (data example_temperature))))"
    "bind_result (field_values ds' ''air_pressure_at_mean_sea_level'')
        (\<lambda>c. Inr (map_cube (\<lambda>x. x * 100.0) c)) = Inr (compute (data example_pressure))"
    "bind_result (field_values ds' ''air_temperature_at_2_metres'')
        (\<lambda>c. Inr (map_cube (\<lambda>x. x + 273.15) c)) = Inr (compute (data example_temperature))"
    by blast
  from r(2) have p4: "bind_result (field_values ds' ''air_pressure_at_mean_sea_level'')
        (\<lambda>c. Inr (take 4 (cells c))) = Inr [1000, 1001, 1002, 1003]"
    by (cases "field_values ds' ''air_pressure_at_mean_sea_level''")
      (auto simp: example_pressure_def cells_def)
  from r(3) have t4: "bind_result (field_values ds' ''air_temperature_at_2_metres'')
        (\<lambda>c. Inr (take 4 (cells c))) = Inr [- 23.15, - 21.15, - 19.15, - 17.15]"
    by (cases "field_values ds' ''air_temperature_at_2_metres''")
      (auto simp: example_temperature_def cells_def)
  from example_getitem r(1) p4 t4 r(4,5) show ?thesis by blast
qed



subsection \<open>Persisting\<close>

text \<open>
  Claim C7. Persisting changes no values: the persisted array computes to the values of
  the array it was made from, the mean along \<open>time0\<close> of the persisted array equals the
  mean along \<open>time0\<close> of the array itself, and for every dataset cell 27 (the mean from the
  persisted handle) gives what cells 19 and 21 (the mean taken directly) give, a missing
  temperature field raising the same error in both.
\<close>

theorem persist_preserves_mean:
  "temp_mean ds = da_temp_mean ds \<and>
   compute (data (persist a)) = compute (data a) \<and>
   compute_grid (mean (persist a)) = compute_grid (mean a)"
  by (cases "getitem ds ''air_temperature_at_2_metres''")
    (simp_all add: temp_mean_def da_temp_mean_def air_temp_def persist_def persist_array_def
      mean_def)


subsection \<open>Longitudes in degrees east\<close>



subsection \<open>The nearest grid cell\<close>

lemma argnearest_less: "xs \<noteq> [] \<Longrightarrow> argnearest t xs < length xs"
  by (induction t xs rule: argnearest.induct) (auto simp: Let_def)

lemma argnearest_min:
  "j < length xs \<Longrightarrow> \<bar>xs ! argnearest t xs - t\<bar> \<le> \<bar>xs ! j - t\<bar>"
proof (induction t xs arbitrary: j rule: argnearest.induct)
  case (1 t)
  then show ?case by simp
next
  case (2 t x)
  then show ?case by simp
next
  case (3 t x y ys)
  define k where "k = argnearest t (y # ys)"
  have IH: "\<bar>(y # ys) ! k - t\<bar> \<le> \<bar>(y # ys) ! i - t\<bar>" if "i < length (y # ys)" for i
    unfolding k_def using "3.IH" that by blast
  show ?case
  proof (cases "closer t ((y # ys) ! k) x")
    case True
    then have res: "argnearest t (x # y # ys) = Suc k" by (simp add: k_def)
    from True have "\<bar>(y # ys) ! k - t\<bar> \<le> \<bar>x - t\<bar>" by (auto simp: closer_def)
    with IH "3.prems" show ?thesis
      unfolding res by (cases j) auto
  next
    case False
    then have res: "argnearest t (x # y # ys) = 0" by (simp add: k_def)
    from False have "\<bar>x - t\<bar> \<le> \<bar>(y # ys) ! k - t\<bar>" by (auto simp: closer_def)
    with IH "3.prems" show ?thesis
      unfolding res by (cases j) (auto intro: order_trans)
  qed
qed

lemma argnearest_exact:
  assumes "t \<in> set xs"
  shows "xs ! argnearest t xs = t"
proof -
  from assms obtain j where "j < length xs" "xs ! j = t"
    by (auto simp: in_set_conv_nth)
  with argnearest_min [of j xs t] show ?thesis by simp
qed


lemma get_loc_nearest_Inr:
  assumes "idx \<noteq> []" and "distinct idx" and "monotonic idx"
  shows "get_loc_nearest idx t = Inr (argnearest t idx)"
  using assms by (simp add: get_loc_nearest_def monotonic_def)

lemma air_temp_ds_example:
  "air_temp_ds example_ds =
     Inr (example_ds\<lparr>data_vars :=
       [(''air_temperature_at_2_metres'',
         example_temperature\<lparr>data := InMemory (compute (data example_temperature))\<rparr>)]\<rparr>)"
  by (simp add: air_temp_ds_def air_temp_def example_getitem persist_def persist_array_def)

text \<open>
  Claim C6. On a grid (coordinates not empty, without duplicates, increasing or
  decreasing) the selection of cell 33 returns for every location: it takes one latitude
  index \<open>i\<close> and one longitude index \<open>j\<close> of the grid, and the series it returns for a
  field is the stored value of that field at row \<open>i\<close>, column \<open>j\<close> of every time layer,
  nothing interpolated. The grid point taken is nearest in latitude and nearest in
  longitude. When the requested latitude (longitude) is a grid latitude (longitude), the
  cell taken is the one at exactly that coordinate.
\<close>

theorem ds2_nearest_grid_cell:
  assumes "dataset.lat ds \<noteq> []" and "distinct (dataset.lat ds)" and "monotonic (dataset.lat ds)"
    and "dataset.lon ds \<noteq> []" and "distinct (dataset.lon ds)" and "monotonic (dataset.lon ds)"
  shows "\<exists>pt i j. ds2 ds l = Inr pt \<and>
     i < length (dataset.lat ds) \<and> j < length (dataset.lon ds) \<and>
     cell_lat pt = dataset.lat ds ! i \<and> cell_lon pt = dataset.lon ds ! j \<and>
     series pt = map (\<lambda>(var, v). (var, Point i j (data v))) (data_vars ds) \<and>
     (\<forall>var v. (var, v) \<in> set (data_vars ds) \<longrightarrow>
        compute_series (Point i j (data v)) = map (\<lambda>layer. layer ! i ! j) (compute (data v))) \<and>
     (\<forall>i' < length (dataset.lat ds).
        \<bar>dataset.lat ds ! i - loc.lat l\<bar> \<le> \<bar>dataset.lat ds ! i' - loc.lat l\<bar>) \<and>
     (\<forall>j' < length (dataset.lon ds).
        \<bar>dataset.lon ds ! j - loc.lon l\<bar> \<le> \<bar>dataset.lon ds ! j' - loc.lon l\<bar>) \<and>
     (\<forall>i' < length (dataset.lat ds). dataset.lat ds ! i' = loc.lat l \<longrightarrow> i = i') \<and>
     (\<forall>j' < length (dataset.lon ds). dataset.lon ds ! j' = loc.lon l \<longrightarrow> j = j') \<and>
     (loc.lat l \<in> set (dataset.lat ds) \<longrightarrow> cell_lat pt = loc.lat l) \<and>
     (loc.lon l \<in> set (dataset.lon ds) \<longrightarrow> cell_lon pt = loc.lon l)"
proof -
  define i where "i = argnearest (loc.lat l) (dataset.lat ds)"
  define j where "j = argnearest (loc.lon l) (dataset.lon ds)"
  have run: "ds2 ds l =
      Inr \<lparr>cell_lon = dataset.lon ds ! j, cell_lat = dataset.lat ds ! i,
           series = map (\<lambda>(var, v). (var, Point i j (data v))) (data_vars ds)\<rparr>"
    by (simp add: ds2_def sel_nearest_def i_def j_def
        get_loc_nearest_Inr [OF assms(1-3)] get_loc_nearest_Inr [OF assms(4-6)])
  have i: "i < length (dataset.lat ds)" and j: "j < length (dataset.lon ds)"
    unfolding i_def j_def using assms(1,4) by (simp_all add: argnearest_less)
  have near_lat: "\<bar>dataset.lat ds ! i - loc.lat l\<bar> \<le> \<bar>dataset.lat ds ! i' - loc.lat l\<bar>"
    if "i' < length (dataset.lat ds)" for i'
    unfolding i_def using that by (rule argnearest_min)
  have near_lon: "\<bar>dataset.lon ds ! j - loc.lon l\<bar> \<le> \<bar>dataset.lon ds ! j' - loc.lon l\<bar>"
    if "j' < length (dataset.lon ds)" for j'
    unfolding j_def using that by (rule argnearest_min)
  have exact_lat: "i = i'" if "i' < length (dataset.lat ds)" "dataset.lat ds ! i' = loc.lat l" for i'
  proof -
    from near_lat [OF that(1)] that(2) have "dataset.lat ds ! i = dataset.lat ds ! i'" by simp
    with assms(2) i that(1) show ?thesis by (simp add: nth_eq_iff_index_eq)
  qed
  have exact_lon: "j = j'" if "j' < length (dataset.lon ds)" "dataset.lon ds ! j' = loc.lon l" for j'
  proof -
    from near_lon [OF that(1)] that(2) have "dataset.lon ds ! j = dataset.lon ds ! j'" by simp
    with assms(5) j that(1) show ?thesis by (simp add: nth_eq_iff_index_eq)
  qed
  have on_lat: "dataset.lat ds ! i = loc.lat l" if "loc.lat l \<in> set (dataset.lat ds)"
    unfolding i_def using that by (rule argnearest_exact)
  have on_lon: "dataset.lon ds ! j = loc.lon l" if "loc.lon l \<in> set (dataset.lon ds)"
    unfolding j_def using that by (rule argnearest_exact)
  define pt where "pt = \<lparr>cell_lon = dataset.lon ds ! j, cell_lat = dataset.lat ds ! i,
      series = map (\<lambda>(var, v). (var, Point i j (data v))) (data_vars ds)\<rparr>"
  have c1: "ds2 ds l = Inr pt" by (simp add: run pt_def)
  have c2: "cell_lat pt = dataset.lat ds ! i" "cell_lon pt = dataset.lon ds ! j"
    "series pt = map (\<lambda>(var, v). (var, Point i j (data v))) (data_vars ds)"
    by (simp_all add: pt_def)
  have c3: "\<forall>var v. (var, v) \<in> set (data_vars ds) \<longrightarrow>
        compute_series (Point i j (data v)) = map (\<lambda>layer. layer ! i ! j) (compute (data v))"
    by simp
  have c4: "loc.lat l \<in> set (dataset.lat ds) \<longrightarrow> cell_lat pt = loc.lat l"
    "loc.lon l \<in> set (dataset.lon ds) \<longrightarrow> cell_lon pt = loc.lon l"
    using on_lat on_lon by (simp_all add: pt_def)
  from c1 i j c2 c3 near_lat near_lon exact_lat exact_lon c4 show ?thesis
    by blast
qed

lemma example_grid:
  "dataset.lat example_ds \<noteq> []" "distinct (dataset.lat example_ds)"
  "monotonic (dataset.lat example_ds)"
  "dataset.lon example_ds \<noteq> []" "distinct (dataset.lon example_ds)"
  "monotonic (dataset.lon example_ds)"
  by (simp_all add: example_ds_def monotonic_def is_monotonic_decreasing_def
      is_monotonic_increasing_def)

theorem ds2_nearest_grid_cell_witness:
  "dataset.lat example_ds \<noteq> [] \<and> distinct (dataset.lat example_ds) \<and>
   monotonic (dataset.lat example_ds) \<and>
   dataset.lon example_ds \<noteq> [] \<and> distinct (dataset.lon example_ds) \<and>
   monotonic (dataset.lon example_ds) \<and>
   loc.lat grid_point \<in> set (dataset.lat example_ds) \<and>
   loc.lon grid_point \<in> set (dataset.lon example_ds) \<and>
   (\<exists>pt. ds2 example_ds grid_point = Inr pt \<and> cell_lat pt = 45 \<and> cell_lon pt = 220 \<and>
      map (\<lambda>(var, s). (var, compute_series s)) (series pt) =
        [(''air_temperature_at_2_metres'', [262, 266]),
         (''air_pressure_at_mean_sea_level'', [100600, 100800])]) \<and>
   (\<exists>d pt. air_temp_ds example_ds = Inr d \<and>
      ds2 d (degrees_east santa_barbara) = Inr pt \<and>
      cell_lat pt = 30 \<and> cell_lon pt = 250 \<and>
      map (\<lambda>(var, s). (var, compute_series s)) (series pt) =
        [(''air_temperature_at_2_metres'', [274, 278])])"
proof -
  have on: "loc.lat grid_point \<in> set (dataset.lat example_ds)"
    "loc.lon grid_point \<in> set (dataset.lon example_ds)"
    by (simp_all add: grid_point_def example_ds_def)
  from ds2_nearest_grid_cell [OF example_grid, of grid_point] on
  obtain pt where pt: "ds2 example_ds grid_point = Inr pt"
    "cell_lat pt = loc.lat grid_point" "cell_lon pt = loc.lon grid_point"
    by blast
  have "ds2 example_ds grid_point =
      Inr \<lparr>cell_lon = 220, cell_lat = 45,
           series = [(''air_temperature_at_2_metres'', Point 1 1 (data example_temperature)),
                     (''air_pressure_at_mean_sea_level'', Point 1 1 (data example_pressure))]\<rparr>"
    by (simp add: ds2_def sel_nearest_def get_loc_nearest_def grid_point_def example_ds_def
        is_monotonic_decreasing_def is_monotonic_increasing_def closer_def)
  with pt(1) have "series pt =
      [(''air_temperature_at_2_metres'', Point 1 1 (data example_temperature)),
       (''air_pressure_at_mean_sea_level'', Point 1 1 (data example_pressure))]"
    by auto
  then have vals: "map (\<lambda>(var, s). (var, compute_series s)) (series pt) =
        [(''air_temperature_at_2_metres'', [262, 266]),
         (''air_pressure_at_mean_sea_level'', [100600, 100800])]"
    by (simp add: example_temperature_def example_pressure_def)
  have first: "\<exists>pt. ds2 example_ds grid_point = Inr pt \<and> cell_lat pt = 45 \<and> cell_lon pt = 220 \<and>
      map (\<lambda>(var, s). (var, compute_series s)) (series pt) =
        [(''air_temperature_at_2_metres'', [262, 266]),
         (''air_pressure_at_mean_sea_level'', [100600, 100800])]"
    using pt vals by (simp add: grid_point_def)
  have "ds2 (example_ds\<lparr>data_vars :=
       [(''air_temperature_at_2_metres'',
         example_temperature\<lparr>data := InMemory (compute (data example_temperature))\<rparr>)]\<rparr>)
       (degrees_east santa_barbara) =
      Inr \<lparr>cell_lon = 250, cell_lat = 30,
           series = [(''air_temperature_at_2_metres'',
                      Point 2 2 (InMemory (compute (data example_temperature))))]\<rparr>"
    by (simp add: ds2_def sel_nearest_def get_loc_nearest_def degrees_east_def santa_barbara_def
        example_ds_def is_monotonic_decreasing_def is_monotonic_increasing_def closer_def)
  then have second: "\<exists>d pt. air_temp_ds example_ds = Inr d \<and>
      ds2 d (degrees_east santa_barbara) = Inr pt \<and>
      cell_lat pt = 30 \<and> cell_lon pt = 250 \<and>
      map (\<lambda>(var, s). (var, compute_series s)) (series pt) =
        [(''air_temperature_at_2_metres'', [274, 278])]"
    by (simp add: air_temp_ds_example example_temperature_def)
  from example_grid on first second show ?thesis by (intro conjI)
qed

end
